theory Spec2Isabelle
  imports Complex_Main "HOL-Library.Word"
begin

unbundle bit_operations_syntax

section \<open>Numbers, vectors and shapes\<close>

text \<open>
  The drone scene (\<^verbatim>\<open>experimental/2d_physics/scene_drone.cpp\<close>) is glue over a
  Box2D-family physics engine and a Qt front end. A \<^verbatim>\<open>float\<close> or \<^verbatim>\<open>double\<close> is
  modelled by the real number it denotes, and the engine's arithmetic on such values is
  exact. What the scene file itself does to a number is modelled as written: a literal
  such as \<^verbatim>\<open>0.8f\<close> is the single-precision value nearest to the decimal, and the
  conversion \<^verbatim>\<open>float(pos.x())\<close> rounds a double to single precision.
\<close>

text \<open>
  Single precision (IEEE 754 binary32): 24 significant bits, exponents from -126 to 127,
  rounding to the nearest value with ties to the even one. \<open>float_round\<close> rounds with
  the exponent unbounded above; \<open>float_of_double\<close> is the conversion of a double, whose
  result is an infinity, for which the model has no number, when the rounded magnitude
  reaches \<open>2 ^ 128\<close>.
\<close>

definition round_half_even :: "real \<Rightarrow> int" where
  "round_half_even q =
     (let n = \<lfloor>q\<rfloor>; r = q - of_int n
      in if r < 1 / 2 then n else if 1 / 2 < r then n + 1 else if even n then n else n + 1)"

definition float_ulp :: "real \<Rightarrow> real" where
  "float_ulp x = 2 powi (max \<lfloor>log 2 \<bar>x\<bar>\<rfloor> (- 126) - 23)"

definition float_round :: "real \<Rightarrow> real" where
  "float_round x =
     (if x = 0 then 0 else of_int (round_half_even (x / float_ulp x)) * float_ulp x)"

definition float_of_double :: "real \<Rightarrow> real option" where
  "float_of_double x = (let r = float_round x in if \<bar>r\<bar> < 2 ^ 128 then Some r else None)"

datatype b2Vec2 = b2Vec2 (vec_x: real) (vec_y: real)

definition b2Vec2_add :: "b2Vec2 \<Rightarrow> b2Vec2 \<Rightarrow> b2Vec2" where
  "b2Vec2_add a b = b2Vec2 (vec_x a + vec_x b) (vec_y a + vec_y b)"

definition b2Vec2_scale :: "real \<Rightarrow> b2Vec2 \<Rightarrow> b2Vec2" where
  "b2Vec2_scale k a = b2Vec2 (k * vec_x a) (k * vec_y a)"

datatype b2Color = b2Color real real real

datatype b2BodyType = b2_staticBody | b2_kinematicBody | b2_dynamicBody

datatype b2Shape =
    b2EdgeShape b2Vec2 b2Vec2
  | b2CircleShape real
  | b2PolygonShape "b2Vec2 list"

text \<open>
  Modelled from the spec: \<^verbatim>\<open>b2PolygonShape::SetAsBox\<close> is engine code that is not part of
  the scene file; it builds the axis-aligned rectangle with the given half-extents.
\<close>

definition SetAsBox :: "real \<Rightarrow> real \<Rightarrow> b2Shape" where
  "SetAsBox hx hy =
     b2PolygonShape [b2Vec2 (- hx) (- hy), b2Vec2 hx (- hy), b2Vec2 hx hy, b2Vec2 (- hx) hy]"

datatype Rect = Rect real real real real

section \<open>The physics world\<close>

text \<open>
  A material field the scene leaves unassigned keeps the engine's default, which the
  scene file does not show: it is \<open>None\<close> here.
\<close>

record b2Material =
  mat_color :: "b2Color option"
  mat_shininess :: "real option"
  mat_emit_intensity :: "real option"

record b2FixtureDef =
  fd_shape :: "b2Shape option"
  fd_density :: real
  fd_friction :: real
  fd_restitution :: real
  fd_material :: b2Material

record b2BodyDef =
  bd_type :: b2BodyType
  bd_position :: b2Vec2
  bd_angle :: real
  bd_linearVelocity :: b2Vec2
  bd_angularVelocity :: real
  bd_linearDamping :: real
  bd_angularDamping :: real
  bd_awake :: bool

text \<open>A body is named by its handle, the index at which the world stores it.\<close>

record b2LightDef =
  ld_body :: nat
  ld_color :: b2Color
  ld_intensity :: real
  ld_attenuation_distance :: real
  ld_position :: b2Vec2

text \<open>A fixture holds its own copy of the definition it was created from, shape included.\<close>

type_synonym b2Fixture = b2FixtureDef

record b2Body =
  m_type :: b2BodyType
  m_position :: b2Vec2
  m_angle :: real
  m_linearVelocity :: b2Vec2
  m_angularVelocity :: real
  m_linearDamping :: real
  m_angularDamping :: real
  m_awake :: bool
  m_force :: b2Vec2
  m_torque :: real
  m_fixtureList :: "b2Fixture list"

record b2World =
  m_gravity :: b2Vec2
  m_bodyList :: "b2Body list"
  m_lightList :: "b2LightDef list"

text \<open>
  Modelled from the spec: the engine's \<^verbatim>\<open>b2BodyDef\<close> is not part of the scene file. A
  fresh body definition is a static body at rest at the origin with heading zero (the
  spec's "position zero, velocity zero, heading zero"), awake and without damping.
\<close>

definition b2BodyDef_new :: b2BodyDef where
  "b2BodyDef_new =
     \<lparr>bd_type = b2_staticBody, bd_position = b2Vec2 0 0, bd_angle = 0,
      bd_linearVelocity = b2Vec2 0 0, bd_angularVelocity = 0,
      bd_linearDamping = 0, bd_angularDamping = 0, bd_awake = True\<rparr>"

text \<open>
  Modelled from the spec: the engine's \<^verbatim>\<open>b2FixtureDef\<close> is not part of the scene file.
  A fresh fixture definition has no shape yet, the engine's default coefficients and the
  engine's default material.
\<close>

definition b2FixtureDef_new :: b2FixtureDef where
  "b2FixtureDef_new =
     \<lparr>fd_shape = None, fd_density = 0, fd_friction = float_round 0.2,
      fd_restitution = 0,
      fd_material = \<lparr>mat_color = None, mat_shininess = None, mat_emit_intensity = None\<rparr>\<rparr>"

text \<open>
  Modelled from the spec: \<^verbatim>\<open>b2World::CreateBody\<close> is engine code. The body it creates has
  the type, transform, velocities and damping of its definition, no fixture and no
  applied force.
\<close>

definition b2Body_new :: "b2BodyDef \<Rightarrow> b2Body" where
  "b2Body_new d =
     \<lparr>m_type = bd_type d, m_position = bd_position d, m_angle = bd_angle d,
      m_linearVelocity = bd_linearVelocity d, m_angularVelocity = bd_angularVelocity d,
      m_linearDamping = bd_linearDamping d, m_angularDamping = bd_angularDamping d,
      m_awake = bd_awake d, m_force = b2Vec2 0 0, m_torque = 0, m_fixtureList = []\<rparr>"

text \<open>
  Modelled from the spec: \<^verbatim>\<open>b2World::CreateBody\<close> adds the new body to the world and
  returns its handle; the body persists, and keeps its handle, for as long as the world
  lives (no removal path exists).
\<close>

definition CreateBody :: "b2BodyDef \<Rightarrow> b2World \<Rightarrow> nat \<times> b2World" where
  "CreateBody d w =
     (length (m_bodyList w), w\<lparr>m_bodyList := m_bodyList w @ [b2Body_new d]\<rparr>)"

text \<open>
  \<open>body_at\<close> follows a body pointer; \<open>update_body\<close> runs a method that mutates the body
  behind a pointer.
\<close>

definition body_at :: "b2World \<Rightarrow> nat \<Rightarrow> b2Body" where
  "body_at w h = m_bodyList w ! h"

definition update_body ::
  "nat \<Rightarrow> (b2Body \<Rightarrow> b2Body) \<Rightarrow> b2World \<Rightarrow> b2World" where
  "update_body h f w = w\<lparr>m_bodyList := (m_bodyList w)[h := f (body_at w h)]\<rparr>"

text \<open>
  Modelled from the spec: \<^verbatim>\<open>b2Body::CreateFixture\<close> is engine code; it attaches a fixture
  with a copy of the definition's shape and material to the body.
\<close>

definition CreateFixture :: "nat \<Rightarrow> b2FixtureDef \<Rightarrow> b2World \<Rightarrow> b2World" where
  "CreateFixture h fd w =
     update_body h (\<lambda>b. b\<lparr>m_fixtureList := m_fixtureList b @ [fd]\<rparr>) w"

text \<open>
  Modelled from the spec: \<^verbatim>\<open>b2World::CreateLight\<close> is engine code; it adds a light to the
  world, attached to the body its definition names.
\<close>

definition CreateLight :: "b2LightDef \<Rightarrow> b2World \<Rightarrow> b2World" where
  "CreateLight ld w = w\<lparr>m_lightList := m_lightList w @ [ld]\<rparr>"

text \<open>
  Modelled from the spec: \<^verbatim>\<open>b2Body::ApplyForceToCenter\<close> is engine code. The force is
  applied to the centre of mass as a continuous force: it is accumulated for the coming
  step and leaves the velocities alone (no impulse). Only a dynamic body takes forces;
  the second argument is the engine's wake flag, with which a sleeping body is woken
  first, and a body that stays asleep accumulates nothing.
\<close>

definition ApplyForceToCenter :: "b2Vec2 \<Rightarrow> bool \<Rightarrow> b2Body \<Rightarrow> b2Body" where
  "ApplyForceToCenter force wake b =
     (if m_type b \<noteq> b2_dynamicBody then b
      else let b1 = (if wake \<and> \<not> m_awake b then b\<lparr>m_awake := True\<rparr> else b)
           in if m_awake b1 then b1\<lparr>m_force := b2Vec2_add (m_force b1) force\<rparr> else b1)"

text \<open>
  Modelled from the spec: \<^verbatim>\<open>b2Body::ApplyTorque\<close> is engine code; the torque is
  accumulated in the same way as a force.
\<close>

definition ApplyTorque :: "real \<Rightarrow> bool \<Rightarrow> b2Body \<Rightarrow> b2Body" where
  "ApplyTorque torque wake b =
     (if m_type b \<noteq> b2_dynamicBody then b
      else let b1 = (if wake \<and> \<not> m_awake b then b\<lparr>m_awake := True\<rparr> else b)
           in if m_awake b1 then b1\<lparr>m_torque := m_torque b1 + torque\<rparr> else b1)"

text \<open>
  Modelled from the spec: \<^verbatim>\<open>b2Body::GetWorldVector\<close> is engine code; it rotates a vector
  of the body's local frame into the world frame.
\<close>

definition GetWorldVector :: "b2Body \<Rightarrow> b2Vec2 \<Rightarrow> b2Vec2" where
  "GetWorldVector b v =
     b2Vec2 (cos (m_angle b) * vec_x v - sin (m_angle b) * vec_y v)
            (sin (m_angle b) * vec_x v + cos (m_angle b) * vec_y v)"

text \<open>
  Modelled from the spec: \<^verbatim>\<open>b2Body::GetWorldPoint\<close> is engine code; it rotates a point of
  the body's local frame and translates it by the body's position.
\<close>

definition GetWorldPoint :: "b2Body \<Rightarrow> b2Vec2 \<Rightarrow> b2Vec2" where
  "GetWorldPoint b v = b2Vec2_add (GetWorldVector b v) (m_position b)"

text \<open>
  Modelled from the spec: the engine's queries \<^verbatim>\<open>GetPosition\<close>, \<^verbatim>\<open>GetLinearVelocity\<close> and
  \<^verbatim>\<open>GetAngle\<close> report the body's current position, linear velocity and angle.
\<close>

definition GetPosition :: "b2Body \<Rightarrow> b2Vec2" where
  "GetPosition b = m_position b"

definition GetLinearVelocity :: "b2Body \<Rightarrow> b2Vec2" where
  "GetLinearVelocity b = m_linearVelocity b"

definition GetAngle :: "b2Body \<Rightarrow> real" where
  "GetAngle b = m_angle b"

section \<open>The scene\<close>

record Config =
  drone_radius :: real
  move_force :: real
  rotate_torque :: real

record SceneVariables =
  drone_x :: real
  drone_y :: real
  drone_vx :: real
  drone_vy :: real
  drone_dir :: real

text \<open>
  The sensor classes are declared outside the scene file. Each sensor is attached to one
  body and keeps its constructor's arguments; those of the camera are read as field of
  view in degrees, near and far distance, and resolution.
\<close>

record Camera =
  cam_body :: nat
  cam_fov :: real
  cam_near :: real
  cam_far :: real
  cam_resolution :: int

record TouchSensor =
  ts_body :: nat
  ts_receptors :: int

record Accelerometer =
  acc_body :: nat
  acc_updates :: "real list"

record Compass =
  cmp_body :: nat

text \<open>
  Modelled from the spec: \<^verbatim>\<open>Accelerometer::update\<close> is declared outside the scene file.
  The accelerometer is updated with the elapsed time of every step; its state here is
  the sequence of elapsed times it has been updated with.
\<close>

definition Accelerometer_update :: "real \<Rightarrow> Accelerometer \<Rightarrow> Accelerometer" where
  "Accelerometer_update dt a = a\<lparr>acc_updates := acc_updates a @ [dt]\<rparr>"

text \<open>
  Modelled from the spec: \<^verbatim>\<open>PropertySet::copyFrom\<close> is declared outside the scene file;
  it copies the recognised keys (drone radius, move force, rotate torque).
\<close>

definition copyFrom :: "Config \<Rightarrow> Config \<Rightarrow> Config" where
  "copyFrom src dst =
     dst\<lparr>drone_radius := drone_radius src, move_force := move_force src,
         rotate_torque := rotate_torque src\<rparr>"

text \<open>
  Modelled from the spec: the member defaults of \<^verbatim>\<open>SceneVariables\<close> are declared in the
  scene's header, which is not available. The constructor never assigns the derived
  variables, so the spec's "after construction ... position zero, velocity zero, heading
  zero" is a statement about these defaults.
\<close>

definition SceneVariables_default :: SceneVariables where
  "SceneVariables_default =
     \<lparr>drone_x = 0, drone_y = 0, drone_vx = 0, drone_vy = 0, drone_dir = 0\<rparr>"

record Scene =
  scene_world :: b2World
  scene_extents :: Rect
  scene_config :: Config
  scene_variables :: SceneVariables
  scene_drone :: nat
  scene_camera :: Camera
  scene_touch_sensor :: TouchSensor
  scene_accelerometer :: Accelerometer
  scene_compass :: Compass

text \<open>
  Modelled from the spec: the base class constructor \<^verbatim>\<open>phys::Scene(gravity, extents)\<close> is
  declared outside the scene file; it creates the empty world with the given gravity and
  keeps the extents.
\<close>

definition b2World_new :: "b2Vec2 \<Rightarrow> b2World" where
  "b2World_new gravity = \<lparr>m_gravity = gravity, m_bodyList = [], m_lightList = []\<rparr>"

subsection \<open>\<^verbatim>\<open>Scene::Scene\<close>\<close>

text \<open>
  The members \<^verbatim>\<open>world_\<close>, \<^verbatim>\<open>config_\<close>, \<^verbatim>\<open>variables_\<close>, \<^verbatim>\<open>drone_\<close>, ... of the
  source are the fields \<open>scene_world\<close>, \<open>scene_config\<close>, \<open>scene_variables\<close>,
  \<open>scene_drone\<close>, ... of the record. The constructor follows the order of the source.
  \<open>dflt\<close> is the default-constructed \<^verbatim>\<open>config_\<close> member, whose values the header
  fixes; \<open>config\<close> is the optional configuration (\<open>None\<close> for a null pointer). Every wall
  fixture is created from the same definition, whose shape is set anew before each call.
\<close>

definition wall_fixture_def :: b2FixtureDef where
  "wall_fixture_def =
     b2FixtureDef_new
       \<lparr>fd_friction := 1.0, fd_restitution := 0.5,
        fd_material := \<lparr>mat_color = Some (b2Color 1 1 0), mat_shininess = None,
                        mat_emit_intensity = Some (float_round 0.1)\<rparr>\<rparr>"

definition drone_body_def :: b2BodyDef where
  "drone_body_def =
     b2BodyDef_new
       \<lparr>bd_type := b2_dynamicBody, bd_position := b2Vec2 0 0,
        bd_linearDamping := 10.0, bd_angularDamping := 10.0\<rparr>"

definition drone_fixture_def :: "Config \<Rightarrow> b2FixtureDef" where
  "drone_fixture_def cfg =
     b2FixtureDef_new
       \<lparr>fd_shape := Some (b2CircleShape (drone_radius cfg)),
        fd_density := float_round 0.1, fd_friction := 1.0,
        fd_restitution := float_round 0.2,
        fd_material := \<lparr>mat_color = Some (b2Color 0 0 1), mat_shininess = None,
                        mat_emit_intensity = Some 0.5\<rparr>\<rparr>"

definition light1_def :: "nat \<Rightarrow> b2LightDef" where
  "light1_def walls =
     \<lparr>ld_body = walls, ld_color = b2Color 1 1 1, ld_intensity = 2.0,
      ld_attenuation_distance = 25.0, ld_position = b2Vec2 9 (- 9)\<rparr>"

definition light2_def :: "nat \<Rightarrow> b2LightDef" where
  "light2_def walls =
     \<lparr>ld_body = walls, ld_color = b2Color 1 1 1, ld_intensity = 2.0,
      ld_attenuation_distance = 25.0, ld_position = b2Vec2 (- 9) (- 9)\<rparr>"

definition Scene_new :: "Config \<Rightarrow> Config option \<Rightarrow> Scene" where
  "Scene_new dflt config =
     (let w0 = b2World_new (b2Vec2 0 0);
          cfg = (case config of Some c \<Rightarrow> copyFrom c dflt | None \<Rightarrow> dflt);
          (walls, w1) = CreateBody b2BodyDef_new w0;
          w2 = CreateFixture walls
                 (wall_fixture_def\<lparr>fd_shape :=
                    Some (b2EdgeShape (b2Vec2 (- 10) (- 10)) (b2Vec2 10 (- 10)))\<rparr>) w1;
          w3 = CreateFixture walls
                 (wall_fixture_def\<lparr>fd_shape :=
                    Some (b2EdgeShape (b2Vec2 (- 10) (- 10)) (b2Vec2 (- 10) 10))\<rparr>) w2;
          w4 = CreateFixture walls
                 (wall_fixture_def\<lparr>fd_shape :=
                    Some (b2EdgeShape (b2Vec2 10 (- 10)) (b2Vec2 10 10))\<rparr>) w3;
          w5 = CreateFixture walls
                 (wall_fixture_def\<lparr>fd_shape :=
                    Some (b2EdgeShape (b2Vec2 (- 10) 10) (b2Vec2 10 10))\<rparr>) w4;
          (drone, w6) = CreateBody drone_body_def w5;
          w7 = CreateFixture drone (drone_fixture_def cfg) w6;
          w8 = CreateLight (light1_def walls) w7;
          w9 = CreateLight (light2_def walls) w8
      in \<lparr>scene_world = w9, scene_extents = Rect (- 10) (- 10) 20 20, scene_config = cfg,
          scene_variables = SceneVariables_default, scene_drone = drone,
          scene_camera = \<lparr>cam_body = drone, cam_fov = 120,
                     cam_near = float_round 0.1, cam_far = 30.0,
                     cam_resolution = 512\<rparr>,
          scene_touch_sensor = \<lparr>ts_body = drone, ts_receptors = 16\<rparr>,
          scene_accelerometer = \<lparr>acc_body = drone, acc_updates = []\<rparr>,
          scene_compass = \<lparr>cmp_body = drone\<rparr>\<rparr>)"

subsection \<open>The scene's operations\<close>

definition updateVariables :: "Scene \<Rightarrow> Scene" where
  "updateVariables s =
     (let drone = body_at (scene_world s) (scene_drone s)
      in s\<lparr>scene_variables :=
             \<lparr>drone_x = vec_x (GetPosition drone), drone_y = vec_y (GetPosition drone),
              drone_vx = vec_x (GetLinearVelocity drone),
              drone_vy = vec_y (GetLinearVelocity drone),
              drone_dir = GetAngle drone\<rparr>\<rparr>)"

definition postStep :: "real \<Rightarrow> Scene \<Rightarrow> Scene" where
  "postStep dt s =
     updateVariables (s\<lparr>scene_accelerometer := Accelerometer_update dt (scene_accelerometer s)\<rparr>)"

definition moveDrone :: "b2Vec2 \<Rightarrow> Scene \<Rightarrow> Scene" where
  "moveDrone force s =
     s\<lparr>scene_world :=
         update_body (scene_drone s)
           (ApplyForceToCenter (GetWorldVector (body_at (scene_world s) (scene_drone s)) force) True)
           (scene_world s)\<rparr>"

definition rotateDrone :: "real \<Rightarrow> Scene \<Rightarrow> Scene" where
  "rotateDrone torque s =
     s\<lparr>scene_world := update_body (scene_drone s) (ApplyTorque torque True) (scene_world s)\<rparr>"

definition balloon_body_def :: "real \<Rightarrow> real \<Rightarrow> b2BodyDef" where
  "balloon_body_def x y =
     b2BodyDef_new
       \<lparr>bd_type := b2_dynamicBody, bd_position := b2Vec2 x y,
        bd_linearDamping := 1.0, bd_angularDamping := 1.0\<rparr>"

definition balloon_fixture_def :: "real \<Rightarrow> b2FixtureDef" where
  "balloon_fixture_def radius =
     b2FixtureDef_new
       \<lparr>fd_shape := Some (b2CircleShape radius),
        fd_density := float_round 0.02, fd_friction := 1.0,
        fd_restitution := float_round 0.9,
        fd_material := \<lparr>mat_color = Some (b2Color 1 0 0), mat_shininess = Some 10,
                        mat_emit_intensity = Some (float_round 0.1)\<rparr>\<rparr>"

definition addBalloon :: "real \<Rightarrow> real \<Rightarrow> real \<Rightarrow> Scene \<Rightarrow> Scene" where
  "addBalloon x y radius s =
     (let (body, w1) = CreateBody (balloon_body_def x y) (scene_world s);
          w2 = CreateFixture body (balloon_fixture_def radius) w1
      in s\<lparr>scene_world := w2\<rparr>)"

definition box_body_def :: "real \<Rightarrow> real \<Rightarrow> b2BodyDef" where
  "box_body_def x y =
     b2BodyDef_new
       \<lparr>bd_type := b2_dynamicBody, bd_position := b2Vec2 x y,
        bd_linearDamping := 2.0, bd_angularDamping := 2.0\<rparr>"

definition box_fixture_def :: "real \<Rightarrow> real \<Rightarrow> b2FixtureDef" where
  "box_fixture_def sx sy =
     b2FixtureDef_new
       \<lparr>fd_shape := Some (SetAsBox sx sy),
        fd_density := 0.5, fd_friction := 1.0, fd_restitution := 0.5,
        fd_material := \<lparr>mat_color = Some (b2Color 0 1 0), mat_shininess = Some 25,
                        mat_emit_intensity = Some (float_round 0.1)\<rparr>\<rparr>"

definition addBox :: "real \<Rightarrow> real \<Rightarrow> real \<Rightarrow> real \<Rightarrow> Scene \<Rightarrow> Scene" where
  "addBox x y sx sy s =
     (let (body, w1) = CreateBody (box_body_def x y) (scene_world s);
          w2 = CreateFixture body (box_fixture_def sx sy) w1
      in s\<lparr>scene_world := w2\<rparr>)"

definition dynamic_body_count :: "b2World \<Rightarrow> nat" where
  "dynamic_body_count w = length (filter (\<lambda>b. m_type b = b2_dynamicBody) (m_bodyList w))"

text \<open>
  Modelled from the spec: the engine's integrator is not part of the scene file. A body
  is subject to gravity per the world's configured gravity vector: its weight is its mass
  times that vector.
\<close>

definition gravity_force :: "b2World \<Rightarrow> real \<Rightarrow> b2Vec2" where
  "gravity_force w mass = b2Vec2_scale mass (m_gravity w)"

section \<open>The user interface\<close>

text \<open>
  \<^verbatim>\<open>SceneUi\<close> holds a pointer to the scene and a sprite; its methods are modelled as
  functions on the scene they act on. The toolkit supplies the set of keys held down,
  the button mask of a pointer event (\<^verbatim>\<open>Qt::LeftButton\<close> is bit 0, \<^verbatim>\<open>Qt::RightButton\<close>
  bit 1) and the painter, which is modelled by the sequence of paint commands it has
  received.
\<close>

datatype Qt_Key = Key_Left | Key_Right | Key_Up | Key_Down | Key_Q | Key_W | Key_other int

text \<open>
  Modelled from the spec: \<^verbatim>\<open>keyPressed\<close> is inherited from the toolkit-side base class;
  it is the keyboard held-state query.
\<close>

definition keyPressed :: "Qt_Key set \<Rightarrow> Qt_Key \<Rightarrow> bool" where
  "keyPressed held k = (k \<in> held)"

definition Qt_LeftButton :: "32 word" where
  "Qt_LeftButton = 1"

definition Qt_RightButton :: "32 word" where
  "Qt_RightButton = 2"

datatype QPointF = QPointF (qp_x: real) (qp_y: real)

datatype QRectF = QRectF real real real real

text \<open>The rectangle with the given top-left and bottom-right corners.\<close>

definition QRectF_corners :: "QPointF \<Rightarrow> QPointF \<Rightarrow> QRectF" where
  "QRectF_corners p q = QRectF (qp_x p) (qp_y p) (qp_x q - qp_x p) (qp_y q - qp_y p)"

datatype paint =
    Save
  | Restore
  | Translate real real
  | Scale real real
  | Rotate real
  | DrawPixmap QRectF
  | SetPen_NoPen
  | SetBrush int int int int
  | DrawPie QRectF int int

text \<open>
  Modelled from the spec: \<^verbatim>\<open>math::radiansToDegrees\<close> comes from a header outside the
  scene file.
\<close>

definition radiansToDegrees :: "real \<Rightarrow> real" where
  "radiansToDegrees r = r * 180 / pi"

text \<open>The conversion \<^verbatim>\<open>int(...)\<close> of a floating-point value truncates towards zero.\<close>

definition to_int :: "real \<Rightarrow> int" where
  "to_int r = (if r < 0 then \<lceil>r\<rceil> else \<lfloor>r\<rfloor>)"

definition renderCamera :: "paint list \<Rightarrow> Camera \<Rightarrow> Scene \<Rightarrow> Scene \<times> paint list" where
  "renderCamera painter camera s =
     (let body = body_at (scene_world s) (cam_body camera);
          far = cam_far camera;
          fov = cam_fov camera;
          pos = GetWorldPoint body (b2Vec2 0 0);
          frustum_rect =
            QRectF_corners (QPointF (vec_x pos - far) (vec_y pos - far))
                           (QPointF (vec_x pos + far) (vec_y pos + far));
          angle = radiansToDegrees (GetAngle body) + 90 + fov / 2
      in (s, painter @ [SetPen_NoPen, SetBrush 64 64 64 32,
                        DrawPie frustum_rect (to_int (- angle * 16)) (to_int (fov * 16))]))"

definition renderDrone :: "paint list \<Rightarrow> Scene \<Rightarrow> Scene \<times> paint list" where
  "renderDrone painter s =
     (let vars = scene_variables s;
          radius = drone_radius (scene_config s);
          dest_rect = QRectF (- radius) (- radius) (radius * 2) (radius * 2)
      in (s, painter @ [Save, Translate (drone_x vars) (drone_y vars), Scale 1 (- 1),
                        Rotate (radiansToDegrees (- drone_dir vars)),
                        DrawPixmap dest_rect, Restore]))"

definition render :: "paint list \<Rightarrow> Scene \<Rightarrow> Scene \<times> paint list" where
  "render painter s =
     (let (s1, p1) = renderDrone painter s
      in renderCamera p1 (scene_camera s1) s1)"

definition step :: "Qt_Key set \<Rightarrow> Scene \<Rightarrow> Scene" where
  "step held s0 =
     (let force = move_force (scene_config s0);
          torque = rotate_torque (scene_config s0);
          s1 = (if keyPressed held Key_Left then moveDrone (b2Vec2 (- force) 0) s0 else s0);
          s2 = (if keyPressed held Key_Right then moveDrone (b2Vec2 force 0) s1 else s1);
          s3 = (if keyPressed held Key_Up then moveDrone (b2Vec2 0 force) s2 else s2);
          s4 = (if keyPressed held Key_Down then moveDrone (b2Vec2 0 (- force)) s3 else s3);
          s5 = (if keyPressed held Key_Q then rotateDrone torque s4 else s4);
          s6 = (if keyPressed held Key_W then rotateDrone (- torque) s5 else s5)
      in s6)"

text \<open>
  \<^verbatim>\<open>mousePressEvent\<close> narrows the pointer's coordinates to single precision first. A
  coordinate beyond the range of \<^verbatim>\<open>float\<close> becomes an infinity; the engine requires
  the position of a body definition to be finite, and the model's numbers have no
  infinity, so spawning a body there has no outcome in the model (\<open>None\<close>). With no
  button held the coordinates are not used.
\<close>

definition mousePressEvent :: "QPointF \<Rightarrow> 32 word \<Rightarrow> Scene \<Rightarrow> Scene option" where
  "mousePressEvent pos buttons s0 =
     (let x = float_of_double (qp_x pos);
          y = float_of_double (qp_y pos);
          s1 = (if buttons AND Qt_LeftButton \<noteq> 0
                then (case (x, y) of
                        (Some fx, Some fy) \<Rightarrow> Some (addBalloon fx fy (float_round 0.8) s0)
                      | _ \<Rightarrow> None)
                else Some s0);
          s2 = (case s1 of
                  None \<Rightarrow> None
                | Some s \<Rightarrow>
                    if buttons AND Qt_RightButton \<noteq> 0
                    then (case (x, y) of
                            (Some fx, Some fy) \<Rightarrow> Some (addBox fx fy 0.5 2.0 s)
                          | _ \<Rightarrow> None)
                    else Some s)
      in s2)"

section \<open>Sequences of operations\<close>

text \<open>
  The host calls the operations of \<^verbatim>\<open>Scene\<close> and \<^verbatim>\<open>SceneUi\<close> one after the other on a
  single thread. A history is a list of such calls, run from left to right; it has an
  outcome in the model when each of its pointer events has one.
\<close>

datatype scene_op =
    is_postStep: Op_postStep real
  | Op_moveDrone b2Vec2
  | Op_rotateDrone real
  | Op_addBalloon real real real
  | Op_addBox real real real real
  | Op_render
  | Op_step "Qt_Key set"
  | Op_mousePressEvent QPointF "32 word"

fun apply_op :: "scene_op \<Rightarrow> Scene \<Rightarrow> Scene option" where
  "apply_op (Op_postStep dt) s = Some (postStep dt s)"
| "apply_op (Op_moveDrone f) s = Some (moveDrone f s)"
| "apply_op (Op_rotateDrone t) s = Some (rotateDrone t s)"
| "apply_op (Op_addBalloon x y r) s = Some (addBalloon x y r s)"
| "apply_op (Op_addBox x y sx sy) s = Some (addBox x y sx sy s)"
| "apply_op Op_render s = Some (fst (render [] s))"
| "apply_op (Op_step held) s = Some (step held s)"
| "apply_op (Op_mousePressEvent pos buttons) s = mousePressEvent pos buttons s"

fun run_ops :: "scene_op list \<Rightarrow> Scene \<Rightarrow> Scene option" where
  "run_ops [] s = Some s"
| "run_ops (op # ops) s =
     (case apply_op op s of None \<Rightarrow> None | Some s1 \<Rightarrow> run_ops ops s1)"

text \<open>
  A pointer event has an outcome in the model when it spawns nothing or both of its
  coordinates are within the range of \<^verbatim>\<open>float\<close>; every other call always has one.
\<close>

definition event_in_range :: "QPointF \<Rightarrow> 32 word \<Rightarrow> bool" where
  "event_in_range pos buttons =
     ((buttons AND Qt_LeftButton = 0 \<and> buttons AND Qt_RightButton = 0) \<or>
      (\<bar>float_round (qp_x pos)\<bar> < 2 ^ 128 \<and> \<bar>float_round (qp_y pos)\<bar> < 2 ^ 128))"

fun op_in_range :: "scene_op \<Rightarrow> bool" where
  "op_in_range (Op_mousePressEvent pos buttons) = event_in_range pos buttons"
| "op_in_range op = True"

text \<open>
  The drone handle of a well-formed scene names a dynamic body of the scene's world.
\<close>

definition Scene_inv :: "Scene \<Rightarrow> bool" where
  "Scene_inv s =
     (scene_drone s < length (m_bodyList (scene_world s)) \<and>
      m_type (body_at (scene_world s) (scene_drone s)) = b2_dynamicBody)"

text \<open>The values \<^verbatim>\<open>updateVariables\<close> reads off the drone body.\<close>

definition drone_state :: "Scene \<Rightarrow> SceneVariables" where
  "drone_state s =
     (let b = body_at (scene_world s) (scene_drone s)
      in \<lparr>drone_x = vec_x (m_position b), drone_y = vec_y (m_position b),
          drone_vx = vec_x (m_linearVelocity b), drone_vy = vec_y (m_linearVelocity b),
          drone_dir = m_angle b\<rparr>)"

text \<open>
  The calls \<^verbatim>\<open>SceneUi::step\<close> has to issue according to the spec: one call for every held
  key, in the order left, right, up, down, Q, W.
\<close>

datatype drone_call = Call_moveDrone b2Vec2 | Call_rotateDrone real

fun issue :: "drone_call \<Rightarrow> Scene \<Rightarrow> Scene" where
  "issue (Call_moveDrone f) s = moveDrone f s"
| "issue (Call_rotateDrone t) s = rotateDrone t s"

fun issue_all :: "drone_call list \<Rightarrow> Scene \<Rightarrow> Scene" where
  "issue_all [] s = s"
| "issue_all (c # cs) s = issue_all cs (issue c s)"

definition step_calls :: "Qt_Key set \<Rightarrow> Config \<Rightarrow> drone_call list" where
  "step_calls held cfg =
     (if Key_Left \<in> held then [Call_moveDrone (b2Vec2 (- move_force cfg) 0)] else []) @
     (if Key_Right \<in> held then [Call_moveDrone (b2Vec2 (move_force cfg) 0)] else []) @
     (if Key_Up \<in> held then [Call_moveDrone (b2Vec2 0 (move_force cfg))] else []) @
     (if Key_Down \<in> held then [Call_moveDrone (b2Vec2 0 (- move_force cfg))] else []) @
     (if Key_Q \<in> held then [Call_rotateDrone (rotate_torque cfg)] else []) @
     (if Key_W \<in> held then [Call_rotateDrone (- rotate_torque cfg)] else [])"

fun call_force :: "drone_call \<Rightarrow> b2Vec2" where
  "call_force (Call_moveDrone f) = f"
| "call_force (Call_rotateDrone t) = b2Vec2 0 0"

fun call_torque :: "drone_call \<Rightarrow> real" where
  "call_torque (Call_moveDrone f) = 0"
| "call_torque (Call_rotateDrone t) = t"

fun total_force :: "drone_call list \<Rightarrow> b2Vec2" where
  "total_force [] = b2Vec2 0 0"
| "total_force (c # cs) = b2Vec2_add (call_force c) (total_force cs)"

fun total_torque :: "drone_call list \<Rightarrow> real" where
  "total_torque [] = 0"
| "total_torque (c # cs) = call_torque c + total_torque cs"

text \<open>
  The spec on a control force followed by a physics step: the step changes the velocity
  of the drone's centre of mass component-wise in the direction of the force rotated
  into the world frame, that is, in every component in which the rotated force is not
  zero the velocity changes with the sign of the force. The engine's step is not part of
  the scene file; \<open>phys\<close> stands for it, as any function from the world before the step
  to the world after it.
\<close>

definition velocity_follows_force ::
  "(b2World \<Rightarrow> b2World) \<Rightarrow> Scene \<Rightarrow> b2Vec2 \<Rightarrow> bool" where
  "velocity_follows_force phys s f =
     (let before = body_at (scene_world s) (scene_drone s);
          world_force = GetWorldVector before f;
          after = body_at (phys (scene_world (moveDrone f s))) (scene_drone s)
      in (vec_x world_force = 0 \<or>
          0 < vec_x world_force *
                (vec_x (m_linearVelocity after) - vec_x (m_linearVelocity before))) \<and>
         (vec_y world_force = 0 \<or>
          0 < vec_y world_force *
                (vec_y (m_linearVelocity after) - vec_y (m_linearVelocity before))))"

text \<open>
  The engine derives the inverse mass and the inverse rotational inertia of a body from
  its fixtures; \<open>mass_data\<close> below stands for that derivation.
\<close>

record b2MassData =
  m_invMass :: real
  m_invI :: real

text \<open>
  Modelled from the spec: the engine's physics step is not part of the scene file. On a
  body free of contacts it integrates, over the time step \<open>h\<close>, the force and torque
  accumulated on the body and the world's gravity, and applies the body's damping; a
  body that is not dynamic or is asleep keeps its velocity. An applied force lasts for
  the current step only: the step clears what was accumulated.
\<close>

definition Step_body ::
  "real \<Rightarrow> b2Vec2 \<Rightarrow> (b2Fixture list \<Rightarrow> b2MassData) \<Rightarrow> b2Body \<Rightarrow> b2Body" where
  "Step_body h gravity mass_data b =
     (if m_type b = b2_dynamicBody \<and> m_awake b
      then let md = mass_data (m_fixtureList b);
               v = b2Vec2_scale (1 / (1 + h * m_linearDamping b))
                     (b2Vec2_add (m_linearVelocity b)
                        (b2Vec2_scale h
                           (b2Vec2_add gravity (b2Vec2_scale (m_invMass md) (m_force b)))));
               w = 1 / (1 + h * m_angularDamping b) *
                     (m_angularVelocity b + h * (m_invI md * m_torque b))
           in b\<lparr>m_linearVelocity := v, m_angularVelocity := w,
                 m_position := b2Vec2_add (m_position b) (b2Vec2_scale h v),
                 m_angle := m_angle b + h * w,
                 m_force := b2Vec2 0 0, m_torque := 0\<rparr>
      else b\<lparr>m_force := b2Vec2 0 0, m_torque := 0\<rparr>)"

text \<open>
  Modelled from the spec: the engine's physics step (\<^verbatim>\<open>b2World::Step\<close>) on the world
  steps every body, under the world's gravity.
\<close>

definition b2World_Step ::
  "real \<Rightarrow> (b2Fixture list \<Rightarrow> b2MassData) \<Rightarrow> b2World \<Rightarrow> b2World" where
  "b2World_Step h mass_data w =
     w\<lparr>m_bodyList := map (Step_body h (m_gravity w) mass_data) (m_bodyList w)\<rparr>"

text \<open>
  A scene to evaluate on: the fresh scene with the default forces, its drone turned by a
  quarter turn and carrying the given force from earlier calls.
\<close>

definition quarter_turned :: "b2Vec2 \<Rightarrow> Scene" where
  "quarter_turned pending =
     (let fresh = Scene_new \<lparr>drone_radius = 1 / 2, move_force = 5, rotate_torque = 1\<rparr> None
      in fresh\<lparr>scene_world :=
           update_body (scene_drone fresh) (\<lambda>b. b\<lparr>m_angle := pi / 2, m_force := pending\<rparr>)
             (scene_world fresh)\<rparr>)"

section \<open>Properties\<close>

subsection \<open>Single precision\<close>

text \<open>Rounding a number whose binary exponent is known.\<close>

lemma float_ulp_eval:
  assumes "2 powi k \<le> \<bar>x\<bar>" "\<bar>x\<bar> < 2 powi (k + 1)"
  shows "float_ulp x = 2 powi (max k (- 126) - 23)"
proof -
  have pos: "0 < \<bar>x\<bar>"
    using assms(1) by (smt (verit) zero_less_power_int)
  have p1: "(2::real) powr real_of_int k = 2 powi k"
    by (simp add: powr_real_of_int')
  have p2: "(2::real) powr (real_of_int k + 1) = 2 powi (k + 1)"
    using powr_real_of_int' [of 2 "k + 1"] by simp
  have "\<lfloor>log 2 \<bar>x\<bar>\<rfloor> = k"
    using assms pos by (simp add: floor_log_eq_powr_iff p1 p2)
  then show ?thesis
    by (simp add: float_ulp_def)
qed

lemma float_round_eval:
  assumes "2 powi k \<le> \<bar>x\<bar>" "\<bar>x\<bar> < 2 powi (k + 1)"
  shows "float_round x =
    of_int (round_half_even (x / 2 powi (max k (- 126) - 23))) * 2 powi (max k (- 126) - 23)"
proof -
  have "x \<noteq> 0"
    using assms(1) by (smt (verit) abs_zero zero_less_power_int)
  then show ?thesis
    by (simp add: float_round_def float_ulp_eval [OF assms])
qed

lemma float_round_0 [simp]: "float_round 0 = 0"
  by (simp add: float_round_def)

lemma float_round_3: "float_round 3 = 3"
  by (subst float_round_eval [of 1]) (simp_all add: round_half_even_def)

lemma float_round_minus_2: "float_round (- 2) = - 2"
  by (subst float_round_eval [of 1]) (simp_all add: round_half_even_def)

lemma float_round_literal_0_8: "float_round (4 / 5) = 13421773 / 16777216"
  by (subst float_round_eval [of "- 1"]) (simp_all add: round_half_even_def)

lemma float_round_tie: "float_round (16777217 / 16777216) = 1"
  by (subst float_round_eval [of 0]) (simp_all add: round_half_even_def)

lemma float_of_double_Some:
  "\<bar>float_round x\<bar> < 2 ^ 128 \<Longrightarrow> float_of_double x = Some (float_round x)"
  by (simp add: float_of_double_def Let_def)

lemma float_of_double_None:
  "(float_of_double x = None) = (\<not> \<bar>float_round x\<bar> < 2 ^ 128)"
  by (simp add: float_of_double_def Let_def)

subsection \<open>The engine's primitives\<close>

lemmas world_defs = CreateBody_def CreateFixture_def CreateLight_def update_body_def body_at_def

lemma b2Vec2_add_zero [simp]: "b2Vec2_add v (b2Vec2 0 0) = v"
  by (simp add: b2Vec2_add_def)

lemma b2Vec2_add_assoc: "b2Vec2_add (b2Vec2_add a b) c = b2Vec2_add a (b2Vec2_add b c)"
  by (simp add: b2Vec2_add_def)

lemma GetWorldVector_zero [simp]: "GetWorldVector b (b2Vec2 0 0) = b2Vec2 0 0"
  by (simp add: GetWorldVector_def)

lemma GetWorldVector_add:
  "GetWorldVector b (b2Vec2_add u v) = b2Vec2_add (GetWorldVector b u) (GetWorldVector b v)"
  by (simp add: GetWorldVector_def b2Vec2_add_def algebra_simps)

lemma ApplyForceToCenter_dynamic:
  "m_type b = b2_dynamicBody \<Longrightarrow>
   ApplyForceToCenter f True b = b\<lparr>m_awake := True, m_force := b2Vec2_add (m_force b) f\<rparr>"
  by (simp add: ApplyForceToCenter_def Let_def)

lemma ApplyTorque_dynamic:
  "m_type b = b2_dynamicBody \<Longrightarrow>
   ApplyTorque t True b = b\<lparr>m_awake := True, m_torque := m_torque b + t\<rparr>"
  by (simp add: ApplyTorque_def Let_def)

lemma ApplyForceToCenter_type [simp]: "m_type (ApplyForceToCenter f wk b) = m_type b"
  by (simp add: ApplyForceToCenter_def Let_def)

lemma ApplyTorque_type [simp]: "m_type (ApplyTorque t wk b) = m_type b"
  by (simp add: ApplyTorque_def Let_def)

subsection \<open>Construction\<close>

lemma Scene_new_config:
  "scene_config (Scene_new dflt config) =
     (case config of Some c \<Rightarrow> copyFrom c dflt | None \<Rightarrow> dflt)"
  by (simp add: Scene_new_def world_defs Let_def)

lemma Scene_new_drone: "scene_drone (Scene_new dflt config) = 1"
  by (simp add: Scene_new_def world_defs b2World_new_def Let_def)

lemma Scene_new_bodies:
  "m_bodyList (scene_world (Scene_new dflt config)) =
     [(b2Body_new b2BodyDef_new)
        \<lparr>m_fixtureList :=
           [wall_fixture_def\<lparr>fd_shape :=
              Some (b2EdgeShape (b2Vec2 (- 10) (- 10)) (b2Vec2 10 (- 10)))\<rparr>,
            wall_fixture_def\<lparr>fd_shape :=
              Some (b2EdgeShape (b2Vec2 (- 10) (- 10)) (b2Vec2 (- 10) 10))\<rparr>,
            wall_fixture_def\<lparr>fd_shape :=
              Some (b2EdgeShape (b2Vec2 10 (- 10)) (b2Vec2 10 10))\<rparr>,
            wall_fixture_def\<lparr>fd_shape :=
              Some (b2EdgeShape (b2Vec2 (- 10) 10) (b2Vec2 10 10))\<rparr>]\<rparr>,
      (b2Body_new drone_body_def)
        \<lparr>m_fixtureList := [drone_fixture_def (scene_config (Scene_new dflt config))]\<rparr>]"
  by (simp add: Scene_new_def world_defs b2World_new_def Let_def b2Body_new_def)

lemma Scene_new_lights:
  "m_lightList (scene_world (Scene_new dflt config)) = [light1_def 0, light2_def 0]"
  by (simp add: Scene_new_def world_defs b2World_new_def Let_def)

lemma Scene_new_gravity:
  "m_gravity (scene_world (Scene_new dflt config)) = b2Vec2 0 0"
  by (simp add: Scene_new_def world_defs b2World_new_def Let_def)

lemma Scene_new_variables:
  "scene_variables (Scene_new dflt config) = SceneVariables_default"
  by (simp add: Scene_new_def world_defs Let_def)

lemma Scene_new_extents:
  "scene_extents (Scene_new dflt config) = Rect (- 10) (- 10) 20 20"
  by (simp add: Scene_new_def world_defs Let_def)

lemma Scene_new_sensors:
  "cam_body (scene_camera (Scene_new dflt config)) = 1"
  "ts_body (scene_touch_sensor (Scene_new dflt config)) = 1"
  "acc_body (scene_accelerometer (Scene_new dflt config)) = 1"
  "cmp_body (scene_compass (Scene_new dflt config)) = 1"
  by (simp_all add: Scene_new_def world_defs b2World_new_def Let_def)

lemma Scene_new_inv: "Scene_inv (Scene_new dflt config)"
  by (simp add: Scene_inv_def Scene_new_drone Scene_new_bodies body_at_def b2Body_new_def
      drone_body_def_def)

subsection \<open>What each operation leaves alone\<close>

lemma moveDrone_frame [simp]:
  "scene_variables (moveDrone f s) = scene_variables s"
  "scene_config (moveDrone f s) = scene_config s"
  "scene_drone (moveDrone f s) = scene_drone s"
  "scene_extents (moveDrone f s) = scene_extents s"
  "m_gravity (scene_world (moveDrone f s)) = m_gravity (scene_world s)"
  by (simp_all add: moveDrone_def update_body_def)

lemma rotateDrone_frame [simp]:
  "scene_variables (rotateDrone t s) = scene_variables s"
  "scene_config (rotateDrone t s) = scene_config s"
  "scene_drone (rotateDrone t s) = scene_drone s"
  "scene_extents (rotateDrone t s) = scene_extents s"
  "m_gravity (scene_world (rotateDrone t s)) = m_gravity (scene_world s)"
  by (simp_all add: rotateDrone_def update_body_def)

lemma addBalloon_frame [simp]:
  "scene_variables (addBalloon x y r s) = scene_variables s"
  "scene_config (addBalloon x y r s) = scene_config s"
  "scene_drone (addBalloon x y r s) = scene_drone s"
  "scene_extents (addBalloon x y r s) = scene_extents s"
  "m_gravity (scene_world (addBalloon x y r s)) = m_gravity (scene_world s)"
  by (simp_all add: addBalloon_def world_defs)

lemma addBox_frame [simp]:
  "scene_variables (addBox x y sx sy s) = scene_variables s"
  "scene_config (addBox x y sx sy s) = scene_config s"
  "scene_drone (addBox x y sx sy s) = scene_drone s"
  "scene_extents (addBox x y sx sy s) = scene_extents s"
  "m_gravity (scene_world (addBox x y sx sy s)) = m_gravity (scene_world s)"
  by (simp_all add: addBox_def world_defs)

lemma postStep_frame [simp]:
  "scene_world (postStep dt s) = scene_world s"
  "scene_config (postStep dt s) = scene_config s"
  "scene_drone (postStep dt s) = scene_drone s"
  "scene_extents (postStep dt s) = scene_extents s"
  by (simp_all add: postStep_def updateVariables_def Let_def)

lemma render_scene [simp]: "fst (render painter s) = s"
  by (simp add: render_def renderDrone_def renderCamera_def Let_def)

lemma step_frame [simp]:
  "scene_variables (step held s) = scene_variables s"
  "scene_config (step held s) = scene_config s"
  "scene_drone (step held s) = scene_drone s"
  "scene_extents (step held s) = scene_extents s"
  "m_gravity (scene_world (step held s)) = m_gravity (scene_world s)"
  by (simp_all add: step_def Let_def)

lemma mousePressEvent_None:
  "(mousePressEvent pos buttons s = None) = (\<not> event_in_range pos buttons)"
  by (auto simp add: mousePressEvent_def event_in_range_def float_of_double_def Let_def
      split: option.splits if_splits)

lemma mousePressEvent_frame:
  "mousePressEvent pos buttons s = Some s1 \<Longrightarrow>
   scene_variables s1 = scene_variables s \<and> scene_config s1 = scene_config s \<and>
   scene_drone s1 = scene_drone s \<and> scene_extents s1 = scene_extents s \<and>
   m_gravity (scene_world s1) = m_gravity (scene_world s)"
  by (auto simp add: mousePressEvent_def Let_def split: option.splits if_splits)

lemma apply_op_None: "(apply_op op s = None) = (\<not> op_in_range op)"
  by (cases op) (simp_all add: mousePressEvent_None)

lemma apply_op_variables:
  "\<not> is_postStep op \<Longrightarrow> apply_op op s = Some s1 \<Longrightarrow>
   scene_variables s1 = scene_variables s"
  by (cases op) (auto dest: mousePressEvent_frame)

lemma apply_op_gravity:
  "apply_op op s = Some s1 \<Longrightarrow> m_gravity (scene_world s1) = m_gravity (scene_world s)"
  by (cases op) (auto dest: mousePressEvent_frame)

lemma apply_op_extents: "apply_op op s = Some s1 \<Longrightarrow> scene_extents s1 = scene_extents s"
  by (cases op) (auto dest: mousePressEvent_frame)

lemma run_ops_None: "(run_ops ops s = None) = (\<not> list_all op_in_range ops)"
proof (induction ops arbitrary: s)
  case Nil
  then show ?case by simp
next
  case (Cons op ops)
  show ?case
  proof (cases "apply_op op s")
    case None
    then have "\<not> op_in_range op"
      using apply_op_None [of op s] by simp
    with None show ?thesis
      by simp
  next
    case (Some s1)
    then have "op_in_range op"
      using apply_op_None [of op s] by simp
    with Some Cons.IH [of s1] show ?thesis
      by simp
  qed
qed

lemma run_ops_variables:
  "\<forall>op \<in> set ops. \<not> is_postStep op \<Longrightarrow> run_ops ops s = Some s1 \<Longrightarrow>
   scene_variables s1 = scene_variables s"
proof (induction ops arbitrary: s)
  case Nil
  then show ?case by simp
next
  case (Cons op ops)
  from Cons.prems(2) obtain s2 where
    first: "apply_op op s = Some s2" and rest: "run_ops ops s2 = Some s1"
    by (auto split: option.splits)
  from Cons.prems(1) have "\<not> is_postStep op"
    by simp
  then have "scene_variables s2 = scene_variables s"
    using first by (rule apply_op_variables)
  moreover from Cons.prems(1) rest have "scene_variables s1 = scene_variables s2"
    by (simp add: Cons.IH)
  ultimately show ?case
    by simp
qed

lemma run_ops_gravity:
  "run_ops ops s = Some s1 \<Longrightarrow> m_gravity (scene_world s1) = m_gravity (scene_world s)"
proof (induction ops arbitrary: s)
  case Nil
  then show ?case by simp
next
  case (Cons op ops)
  from Cons.prems obtain s2 where
    first: "apply_op op s = Some s2" and rest: "run_ops ops s2 = Some s1"
    by (auto split: option.splits)
  from first rest show ?case
    by (simp add: apply_op_gravity Cons.IH)
qed

lemma run_ops_extents: "run_ops ops s = Some s1 \<Longrightarrow> scene_extents s1 = scene_extents s"
proof (induction ops arbitrary: s)
  case Nil
  then show ?case by simp
next
  case (Cons op ops)
  from Cons.prems obtain s2 where
    first: "apply_op op s = Some s2" and rest: "run_ops ops s2 = Some s1"
    by (auto split: option.splits)
  from first rest show ?case
    by (simp add: apply_op_extents Cons.IH)
qed

subsection \<open>The drone body under the control calls\<close>

lemma moveDrone_inv: "Scene_inv s \<Longrightarrow> Scene_inv (moveDrone f s)"
  by (simp add: Scene_inv_def moveDrone_def update_body_def body_at_def)

lemma rotateDrone_inv: "Scene_inv s \<Longrightarrow> Scene_inv (rotateDrone t s)"
  by (simp add: Scene_inv_def rotateDrone_def update_body_def body_at_def)

lemma moveDrone_body:
  "Scene_inv s \<Longrightarrow>
   body_at (scene_world (moveDrone f s)) (scene_drone s) =
     (body_at (scene_world s) (scene_drone s))
       \<lparr>m_awake := True,
        m_force := b2Vec2_add (m_force (body_at (scene_world s) (scene_drone s)))
                     (GetWorldVector (body_at (scene_world s) (scene_drone s)) f)\<rparr>"
  by (simp add: Scene_inv_def moveDrone_def update_body_def body_at_def
      ApplyForceToCenter_dynamic)

lemma rotateDrone_body:
  "Scene_inv s \<Longrightarrow>
   body_at (scene_world (rotateDrone t s)) (scene_drone s) =
     (body_at (scene_world s) (scene_drone s))
       \<lparr>m_awake := True,
        m_torque := m_torque (body_at (scene_world s) (scene_drone s)) + t\<rparr>"
  by (simp add: Scene_inv_def rotateDrone_def update_body_def body_at_def
      ApplyTorque_dynamic)

lemma moveDrone_expand:
  "Scene_inv s \<Longrightarrow>
   moveDrone f s =
     s\<lparr>scene_world := (scene_world s)
        \<lparr>m_bodyList := (m_bodyList (scene_world s))
           [scene_drone s :=
              (body_at (scene_world s) (scene_drone s))
                \<lparr>m_awake := True,
                 m_force := b2Vec2_add (m_force (body_at (scene_world s) (scene_drone s)))
                              (GetWorldVector (body_at (scene_world s) (scene_drone s)) f)\<rparr>]\<rparr>\<rparr>"
  by (simp add: Scene_inv_def moveDrone_def update_body_def ApplyForceToCenter_dynamic)

text \<open>
  On a fresh scene with the default forces, pushing right after pushing left, or left
  after pushing right, gives back the world as it was: the accumulated forces cancel.
\<close>

lemma opposite_forces_cancel:
  "scene_world (moveDrone (b2Vec2 5 0) (moveDrone (b2Vec2 (- 5) 0)
      (Scene_new \<lparr>drone_radius = 1 / 2, move_force = 5, rotate_torque = 1\<rparr> None))) =
   scene_world (Scene_new \<lparr>drone_radius = 1 / 2, move_force = 5, rotate_torque = 1\<rparr> None)"
  "scene_world (moveDrone (b2Vec2 (- 5) 0) (moveDrone (b2Vec2 5 0)
      (Scene_new \<lparr>drone_radius = 1 / 2, move_force = 5, rotate_torque = 1\<rparr> None))) =
   scene_world (Scene_new \<lparr>drone_radius = 1 / 2, move_force = 5, rotate_torque = 1\<rparr> None)"
  by (simp_all add: moveDrone_def update_body_def body_at_def Scene_new_drone Scene_new_bodies
      ApplyForceToCenter_def GetWorldVector_def b2Vec2_add_def b2Body_new_def
      drone_body_def_def b2BodyDef_new_def Let_def)

lemma issue_inv: "Scene_inv s \<Longrightarrow> Scene_inv (issue c s)"
  by (cases c) (simp_all add: moveDrone_inv rotateDrone_inv)

lemma issue_frame [simp]:
  "scene_drone (issue c s) = scene_drone s"
  by (cases c) simp_all

lemma issue_body:
  "Scene_inv s \<Longrightarrow>
   m_force (body_at (scene_world (issue c s)) (scene_drone s)) =
     b2Vec2_add (m_force (body_at (scene_world s) (scene_drone s)))
       (GetWorldVector (body_at (scene_world s) (scene_drone s)) (call_force c)) \<and>
   m_torque (body_at (scene_world (issue c s)) (scene_drone s)) =
     m_torque (body_at (scene_world s) (scene_drone s)) + call_torque c \<and>
   m_angle (body_at (scene_world (issue c s)) (scene_drone s)) =
     m_angle (body_at (scene_world s) (scene_drone s))"
  by (cases c) (simp_all add: moveDrone_body rotateDrone_body)

lemma GetWorldVector_cong:
  "m_angle b = m_angle b' \<Longrightarrow> GetWorldVector b v = GetWorldVector b' v"
  by (simp add: GetWorldVector_def)

lemma issue_all_body:
  "Scene_inv s \<Longrightarrow>
   m_force (body_at (scene_world (issue_all cs s)) (scene_drone s)) =
     b2Vec2_add (m_force (body_at (scene_world s) (scene_drone s)))
       (GetWorldVector (body_at (scene_world s) (scene_drone s)) (total_force cs)) \<and>
   m_torque (body_at (scene_world (issue_all cs s)) (scene_drone s)) =
     m_torque (body_at (scene_world s) (scene_drone s)) + total_torque cs"
proof (induction cs arbitrary: s)
  case Nil
  then show ?case by simp
next
  case (Cons c cs)
  let ?b = "body_at (scene_world s) (scene_drone s)"
  let ?b1 = "body_at (scene_world (issue c s)) (scene_drone s)"
  have inv1: "Scene_inv (issue c s)"
    using Cons.prems by (rule issue_inv)
  have step1: "m_force ?b1 = b2Vec2_add (m_force ?b) (GetWorldVector ?b (call_force c))"
    "m_torque ?b1 = m_torque ?b + call_torque c" "m_angle ?b1 = m_angle ?b"
    using issue_body [OF Cons.prems, of c] by simp_all
  have rot: "GetWorldVector ?b1 (total_force cs) = GetWorldVector ?b (total_force cs)"
    using step1(3) by (rule GetWorldVector_cong)
  from Cons.IH [OF inv1] step1 rot show ?case
    by (simp add: GetWorldVector_add b2Vec2_add_assoc)
qed

lemma step_issues: "step held s = issue_all (step_calls held (scene_config s)) s"
  by (simp add: step_def step_calls_def keyPressed_def Let_def)

subsection \<open>The drone body under a physics step\<close>

lemma quarter_turned_drone:
  "body_at (scene_world (quarter_turned pending)) (scene_drone (quarter_turned pending)) =
     (b2Body_new drone_body_def)
       \<lparr>m_fixtureList :=
          [drone_fixture_def \<lparr>drone_radius = 1 / 2, move_force = 5, rotate_torque = 1\<rparr>],
        m_angle := pi / 2, m_force := pending\<rparr>"
  by (simp add: quarter_turned_def Let_def update_body_def body_at_def Scene_new_drone
      Scene_new_bodies Scene_new_config)

lemma quarter_turned_inv: "Scene_inv (quarter_turned pending)"
  by (simp add: Scene_inv_def quarter_turned_drone b2Body_new_def drone_body_def_def)
    (simp add: quarter_turned_def Let_def update_body_def Scene_new_drone Scene_new_bodies)

lemma quarter_turned_gravity: "m_gravity (scene_world (quarter_turned pending)) = b2Vec2 0 0"
  by (simp add: quarter_turned_def Let_def update_body_def Scene_new_gravity)

lemma Step_drone:
  "Scene_inv s \<Longrightarrow>
   body_at (b2World_Step h mass_data (scene_world (moveDrone f s))) (scene_drone s) =
     Step_body h (m_gravity (scene_world s)) mass_data
       (body_at (scene_world (moveDrone f s)) (scene_drone s))"
  by (simp add: b2World_Step_def body_at_def Scene_inv_def moveDrone_def update_body_def)

subsection \<open>Well-formed scenes\<close>

text \<open>
  Every scene the program can reach from construction by its operations is well-formed.
\<close>

lemma addBalloon_inv: "Scene_inv s \<Longrightarrow> Scene_inv (addBalloon x y r s)"
  by (simp add: Scene_inv_def addBalloon_def world_defs nth_append)

lemma addBox_inv: "Scene_inv s \<Longrightarrow> Scene_inv (addBox x y sx sy s)"
  by (simp add: Scene_inv_def addBox_def world_defs nth_append)

lemma postStep_inv: "Scene_inv s \<Longrightarrow> Scene_inv (postStep dt s)"
  by (simp add: Scene_inv_def)

lemma issue_all_inv: "Scene_inv s \<Longrightarrow> Scene_inv (issue_all cs s)"
  by (induction cs arbitrary: s) (simp_all add: issue_inv)

lemma step_inv: "Scene_inv s \<Longrightarrow> Scene_inv (step held s)"
  by (simp add: step_issues issue_all_inv)

lemma mousePressEvent_inv:
  "Scene_inv s \<Longrightarrow> mousePressEvent pos buttons s = Some s1 \<Longrightarrow> Scene_inv s1"
  by (auto simp add: mousePressEvent_def Let_def addBalloon_inv addBox_inv
      split: option.splits if_splits)

lemma apply_op_inv: "Scene_inv s \<Longrightarrow> apply_op op s = Some s1 \<Longrightarrow> Scene_inv s1"
  by (cases op)
    (auto simp add: postStep_inv moveDrone_inv rotateDrone_inv addBalloon_inv addBox_inv
      step_inv dest: mousePressEvent_inv)

lemma run_ops_inv: "Scene_inv s \<Longrightarrow> run_ops ops s = Some s1 \<Longrightarrow> Scene_inv s1"
proof (induction ops arbitrary: s)
  case Nil
  then show ?case by simp
next
  case (Cons op ops)
  from Cons.prems(2) obtain s2 where
    first: "apply_op op s = Some s2" and rest: "run_ops ops s2 = Some s1"
    by (auto split: option.splits)
  from Cons.prems(1) first have "Scene_inv s2"
    by (rule apply_op_inv)
  then show ?case
    using rest by (rule Cons.IH)
qed

lemma reachable_inv: "run_ops ops (Scene_new dflt config) = Some s \<Longrightarrow> Scene_inv s"
  using Scene_new_inv by (rule run_ops_inv)

subsection \<open>The claims\<close>

text \<open>
  C1. Immediately after construction, with or without a configuration, the derived
  variables are all zero and equal what the drone body reports: position zero, velocity
  zero, heading zero.
\<close>

theorem construction_variables:
  "scene_variables (Scene_new dflt config) =
     \<lparr>drone_x = 0, drone_y = 0, drone_vx = 0, drone_vy = 0, drone_dir = 0\<rparr> \<and>
   scene_variables (Scene_new dflt config) = drone_state (Scene_new dflt config)"
  by (simp add: drone_state_def Scene_new_drone Scene_new_bodies Scene_new_variables
      SceneVariables_default_def body_at_def b2Body_new_def drone_body_def_def
      b2BodyDef_new_def)

text \<open>
  C2. \<^verbatim>\<open>postStep(dt)\<close> updates the accelerometer with \<open>dt\<close> and sets the derived variables
  to the position, linear velocity and angle of the drone body in the world as it is at
  the call; it changes nothing else. This holds for every \<open>dt\<close>, negative ones included.
\<close>

theorem postStep_updates:
  "postStep dt s =
     s\<lparr>scene_accelerometer := Accelerometer_update dt (scene_accelerometer s),
       scene_variables := drone_state s\<rparr>"
  by (simp add: postStep_def updateVariables_def drone_state_def Let_def GetPosition_def
      GetLinearVelocity_def GetAngle_def)

text \<open>
  C3. On a well-formed scene \<^verbatim>\<open>moveDrone(f)\<close> applies \<open>f\<close>, rotated from the drone's local
  frame into the world frame, to the drone's centre of mass as a continuous force for
  the current step only: the rotated force is added to the force accumulated on the
  drone, the call changes no velocity (no impulse) and nothing else in the scene but
  the drone's wake flag, and the following physics step clears the accumulated force.
  That step, in this scene's world without gravity and with the drone free of contacts,
  changes the velocity by the accumulated force. When the drone is at rest and no
  other force is pending, it changes the velocity component-wise in the direction of
  \<open>f\<close> rotated into the world frame.
\<close>

theorem moveDrone_applies_force:
  "Scene_inv s \<Longrightarrow> 0 < h \<Longrightarrow>
   0 < m_invMass (mass_data (m_fixtureList (body_at (scene_world s) (scene_drone s)))) \<Longrightarrow>
   0 \<le> m_linearDamping (body_at (scene_world s) (scene_drone s)) \<Longrightarrow>
   m_gravity (scene_world s) = b2Vec2 0 0 \<Longrightarrow>
   (let drone = body_at (scene_world s) (scene_drone s);
        force = b2Vec2_add (m_force drone) (GetWorldVector drone f);
        after = body_at (b2World_Step h mass_data (scene_world (moveDrone f s)))
                  (scene_drone s)
    in moveDrone f s =
         s\<lparr>scene_world := (scene_world s)
            \<lparr>m_bodyList := (m_bodyList (scene_world s))
               [scene_drone s := drone\<lparr>m_awake := True, m_force := force\<rparr>]\<rparr>\<rparr> \<and>
       m_force (body_at (scene_world (moveDrone f s)) (scene_drone s)) = force \<and>
       m_linearVelocity (body_at (scene_world (moveDrone f s)) (scene_drone s)) =
         m_linearVelocity drone \<and>
       m_angularVelocity (body_at (scene_world (moveDrone f s)) (scene_drone s)) =
         m_angularVelocity drone \<and>
       m_linearVelocity after =
         b2Vec2_scale (1 / (1 + h * m_linearDamping drone))
           (b2Vec2_add (m_linearVelocity drone)
              (b2Vec2_scale (h * m_invMass (mass_data (m_fixtureList drone))) force)) \<and>
       m_force after = b2Vec2 0 0 \<and>
       (m_force drone = b2Vec2 0 0 \<and> m_linearVelocity drone = b2Vec2 0 0 \<longrightarrow>
        velocity_follows_force (b2World_Step h mass_data) s f))"
proof -
  assume inv: "Scene_inv s" and h: "0 < h"
    and mass: "0 < m_invMass (mass_data (m_fixtureList (body_at (scene_world s)
      (scene_drone s))))"
    and damping: "0 \<le> m_linearDamping (body_at (scene_world s) (scene_drone s))"
    and gravity: "m_gravity (scene_world s) = b2Vec2 0 0"
  let ?drone = "body_at (scene_world s) (scene_drone s)"
  let ?force = "b2Vec2_add (m_force ?drone) (GetWorldVector ?drone f)"
  let ?pushed = "body_at (scene_world (moveDrone f s)) (scene_drone s)"
  let ?after = "body_at (b2World_Step h mass_data (scene_world (moveDrone f s)))
    (scene_drone s)"
  let ?k = "h * m_invMass (mass_data (m_fixtureList ?drone))"
  let ?d = "1 + h * m_linearDamping ?drone"
  have pushed: "?pushed = ?drone\<lparr>m_awake := True, m_force := ?force\<rparr>"
    using inv by (rule moveDrone_body)
  have dyn: "m_type ?drone = b2_dynamicBody"
    using inv by (simp add: Scene_inv_def)
  have after: "?after = Step_body h (b2Vec2 0 0) mass_data ?pushed"
    using Step_drone [OF inv, of h mass_data f] gravity by simp
  have velocity: "m_linearVelocity ?after =
      b2Vec2_scale (1 / ?d) (b2Vec2_add (m_linearVelocity ?drone) (b2Vec2_scale ?k ?force))"
    by (simp add: after pushed dyn Step_body_def Let_def b2Vec2_scale_def b2Vec2_add_def
        algebra_simps)
  have cleared: "m_force ?after = b2Vec2 0 0"
    by (simp add: after pushed dyn Step_body_def Let_def)
  have dpos: "0 < ?d"
    using h damping by (smt (verit) mult_nonneg_nonneg)
  have kpos: "0 < ?k"
    using h mass by simp
  have follows: "velocity_follows_force (b2World_Step h mass_data) s f"
    if rest: "m_force ?drone = b2Vec2 0 0" "m_linearVelocity ?drone = b2Vec2 0 0"
  proof -
    have c: "0 < ?k / ?d"
      using kpos dpos by simp
    have "a = 0 \<or> 0 < a * (?k * a / ?d)" for a :: real
    proof (cases "a = 0")
      case True
      then show ?thesis by simp
    next
      case False
      then have "0 < a * a"
        by (auto simp add: zero_less_mult_iff)
      with c have "0 < (?k / ?d) * (a * a)"
        by (rule mult_pos_pos)
      then show ?thesis
        by (simp add: algebra_simps)
    qed
    then show ?thesis
      by (simp add: velocity_follows_force_def Let_def velocity rest b2Vec2_scale_def
          b2Vec2_add_def)
  qed
  show ?thesis
    unfolding Let_def
    using moveDrone_expand [OF inv, of f] pushed velocity cleared follows
    by simp
qed

theorem moveDrone_applies_force_witness:
  "Scene_inv (quarter_turned (b2Vec2 1 1)) \<and>
   m_force (body_at (scene_world (moveDrone (b2Vec2 0 5) (quarter_turned (b2Vec2 1 1))))
       (scene_drone (quarter_turned (b2Vec2 1 1)))) = b2Vec2 (- 4) 1 \<and>
   m_linearVelocity
     (body_at (b2World_Step (1 / 10) (\<lambda>fs. \<lparr>m_invMass = 2, m_invI = 1\<rparr>)
         (scene_world (moveDrone (b2Vec2 0 5) (quarter_turned (b2Vec2 1 1)))))
       (scene_drone (quarter_turned (b2Vec2 1 1)))) = b2Vec2 (- 2 / 5) (1 / 10) \<and>
   m_force
     (body_at (b2World_Step (1 / 10) (\<lambda>fs. \<lparr>m_invMass = 2, m_invI = 1\<rparr>)
         (scene_world (moveDrone (b2Vec2 0 5) (quarter_turned (b2Vec2 1 1)))))
       (scene_drone (quarter_turned (b2Vec2 1 1)))) = b2Vec2 0 0 \<and>
   velocity_follows_force (b2World_Step (1 / 10) (\<lambda>fs. \<lparr>m_invMass = 2, m_invI = 1\<rparr>))
     (quarter_turned (b2Vec2 0 0)) (b2Vec2 0 5)"
proof -
  let ?md = "\<lambda>fs :: b2Fixture list. \<lparr>m_invMass = 2, m_invI = 1\<rparr>"
  let ?f = "b2Vec2 0 5"
  have body: "m_force (body_at (scene_world (quarter_turned p)) (scene_drone (quarter_turned p))) = p"
    "m_linearVelocity (body_at (scene_world (quarter_turned p))
       (scene_drone (quarter_turned p))) = b2Vec2 0 0"
    "m_angle (body_at (scene_world (quarter_turned p)) (scene_drone (quarter_turned p))) =
       pi / 2"
    "m_linearDamping (body_at (scene_world (quarter_turned p))
       (scene_drone (quarter_turned p))) = 10" for p
    by (simp_all add: quarter_turned_drone b2Body_new_def drone_body_def_def
        b2BodyDef_new_def)
  have h: "(0::real) < 1 / 10"
    by simp
  have mass: "0 < m_invMass (?md (m_fixtureList (body_at (scene_world (quarter_turned p))
      (scene_drone (quarter_turned p)))))" for p
    by simp
  have damping: "0 \<le> m_linearDamping (body_at (scene_world (quarter_turned p))
      (scene_drone (quarter_turned p)))" for p
    by (simp add: body)
  note pushed =
    moveDrone_applies_force [OF quarter_turned_inv h mass damping quarter_turned_gravity,
      of "b2Vec2 1 1" ?f, unfolded Let_def]
  note at_rest =
    moveDrone_applies_force [OF quarter_turned_inv h mass damping quarter_turned_gravity,
      of "b2Vec2 0 0" ?f, unfolded Let_def]
  have a: "m_force (body_at (scene_world (moveDrone ?f (quarter_turned (b2Vec2 1 1))))
      (scene_drone (quarter_turned (b2Vec2 1 1)))) = b2Vec2 (- 4) 1"
    using pushed [THEN conjunct2, THEN conjunct1]
    by (simp add: body GetWorldVector_def b2Vec2_add_def)
  have b: "m_linearVelocity (body_at (b2World_Step (1 / 10) ?md
      (scene_world (moveDrone ?f (quarter_turned (b2Vec2 1 1)))))
      (scene_drone (quarter_turned (b2Vec2 1 1)))) = b2Vec2 (- 2 / 5) (1 / 10)"
    using pushed [THEN conjunct2, THEN conjunct2, THEN conjunct2, THEN conjunct2,
        THEN conjunct1]
    by (simp add: body GetWorldVector_def b2Vec2_add_def b2Vec2_scale_def)
  have c: "m_force (body_at (b2World_Step (1 / 10) ?md
      (scene_world (moveDrone ?f (quarter_turned (b2Vec2 1 1)))))
      (scene_drone (quarter_turned (b2Vec2 1 1)))) = b2Vec2 0 0"
    using pushed [THEN conjunct2, THEN conjunct2, THEN conjunct2, THEN conjunct2,
        THEN conjunct2, THEN conjunct1] .
  have d: "velocity_follows_force (b2World_Step (1 / 10) ?md) (quarter_turned (b2Vec2 0 0)) ?f"
    using at_rest [THEN conjunct2, THEN conjunct2, THEN conjunct2, THEN conjunct2,
        THEN conjunct2, THEN conjunct2]
    by (simp add: body)
  from quarter_turned_inv [of "b2Vec2 1 1"] a b c d show ?thesis
    by blast
qed

text \<open>
  The claim as stated promises the step's change of velocity in the direction of the
  rotated \<open>f\<close> for every call. No step can do that when another force is pending: after
  pushing left and then right the world is the one reached by pushing right and then
  left, so the same step would have to raise and to lower the velocity's x component.
\<close>

theorem moveDrone_then_step_counterexample:
  "\<not> (\<exists>phys.
        velocity_follows_force phys
          (moveDrone (b2Vec2 (- 5) 0)
             (Scene_new \<lparr>drone_radius = 1 / 2, move_force = 5, rotate_torque = 1\<rparr> None))
          (b2Vec2 5 0) \<and>
        velocity_follows_force phys
          (moveDrone (b2Vec2 5 0)
             (Scene_new \<lparr>drone_radius = 1 / 2, move_force = 5, rotate_torque = 1\<rparr> None))
          (b2Vec2 (- 5) 0))"
proof
  let ?s = "Scene_new \<lparr>drone_radius = 1 / 2, move_force = 5, rotate_torque = 1\<rparr> None"
  let ?v = "\<lambda>phys. vec_x (m_linearVelocity (body_at (phys (scene_world ?s)) (scene_drone ?s)))"
  assume "\<exists>phys.
        velocity_follows_force phys (moveDrone (b2Vec2 (- 5) 0) ?s) (b2Vec2 5 0) \<and>
        velocity_follows_force phys (moveDrone (b2Vec2 5 0) ?s) (b2Vec2 (- 5) 0)"
  then obtain phys where
    l: "velocity_follows_force phys (moveDrone (b2Vec2 (- 5) 0) ?s) (b2Vec2 5 0)" and
    r: "velocity_follows_force phys (moveDrone (b2Vec2 5 0) ?s) (b2Vec2 (- 5) 0)"
    by blast
  have inv: "Scene_inv ?s"
    by (rule Scene_new_inv)
  have rest: "m_linearVelocity (body_at (scene_world ?s) (scene_drone ?s)) = b2Vec2 0 0"
    "m_angle (body_at (scene_world ?s) (scene_drone ?s)) = 0"
    by (simp_all add: Scene_new_drone Scene_new_bodies body_at_def b2Body_new_def
        drone_body_def_def b2BodyDef_new_def)
  from l have "0 < ?v phys"
    by (simp add: velocity_follows_force_def Let_def opposite_forces_cancel
        moveDrone_body [OF inv] rest GetWorldVector_def)
  moreover from r have "?v phys < 0"
    by (simp add: velocity_follows_force_def Let_def opposite_forces_cancel
        moveDrone_body [OF inv] rest GetWorldVector_def)
  ultimately show False
    by simp
qed

text \<open>
  C4. \<^verbatim>\<open>addBalloon(x, y, r)\<close> raises the number of dynamic bodies by exactly one; the new
  body is dynamic and placed at \<open>(x, y)\<close>; every body that existed before is still there,
  unchanged, and no light is created.
\<close>

theorem addBalloon_adds_one_dynamic_body:
  "dynamic_body_count (scene_world (addBalloon x y r s)) =
     dynamic_body_count (scene_world s) + 1 \<and>
   butlast (m_bodyList (scene_world (addBalloon x y r s))) = m_bodyList (scene_world s) \<and>
   m_type (last (m_bodyList (scene_world (addBalloon x y r s)))) = b2_dynamicBody \<and>
   m_position (last (m_bodyList (scene_world (addBalloon x y r s)))) = b2Vec2 x y \<and>
   m_lightList (scene_world (addBalloon x y r s)) = m_lightList (scene_world s)"
  by (simp add: dynamic_body_count_def addBalloon_def world_defs b2Body_new_def
      balloon_body_def_def)

text \<open>
  C5. A pointer press at \<open>(x, y)\<close> with both coordinates within the range of
  \<^verbatim>\<open>float\<close> appends to the world's bodies one balloon of radius \<^verbatim>\<open>0.8f\<close> (the
  single-precision value 13421773 / 16777216) when the left button is in the event's
  button mask, then one box of half-extents (0.5, 2.0) when the right button is in the
  mask: both when both are held, nothing when neither is. The bodies are placed at the
  pointer's coordinates rounded to single precision. Nothing else in the scene changes.
\<close>

theorem mousePressEvent_spawns:
  "\<bar>float_round x\<bar> < 2 ^ 128 \<Longrightarrow> \<bar>float_round y\<bar> < 2 ^ 128 \<Longrightarrow>
   (let fx = float_round x;
        fy = float_round y;
        radius = 13421773 / 16777216;
        balloon =
          (b2Body_new (balloon_body_def fx fy))
            \<lparr>m_fixtureList := [balloon_fixture_def radius]\<rparr>;
        box =
          (b2Body_new (box_body_def fx fy))\<lparr>m_fixtureList := [box_fixture_def 0.5 2.0]\<rparr>;
        spawned =
          (if buttons AND Qt_LeftButton \<noteq> 0 then [balloon] else []) @
          (if buttons AND Qt_RightButton \<noteq> 0 then [box] else [])
    in mousePressEvent (QPointF x y) buttons s =
         Some (s\<lparr>scene_world :=
                   (scene_world s)\<lparr>m_bodyList := m_bodyList (scene_world s) @ spawned\<rparr>\<rparr>) \<and>
       m_type balloon = b2_dynamicBody \<and> m_position balloon = b2Vec2 fx fy \<and>
       map fd_shape (m_fixtureList balloon) = [Some (b2CircleShape radius)] \<and>
       m_type box = b2_dynamicBody \<and> m_position box = b2Vec2 fx fy \<and>
       map fd_shape (m_fixtureList box) = [Some (SetAsBox 0.5 2.0)])"
  by (simp add: Let_def mousePressEvent_def float_of_double_Some float_round_literal_0_8
      addBalloon_def addBox_def world_defs b2Body_new_def balloon_body_def_def
      box_body_def_def balloon_fixture_def_def box_fixture_def_def nth_append
      list_update_append)

theorem mousePressEvent_spawns_witness:
  "\<bar>float_round 3\<bar> < 2 ^ 128 \<and> \<bar>float_round (- 2)\<bar> < 2 ^ 128 \<and>
   map_option (\<lambda>s. map m_position (m_bodyList (scene_world s)))
     (mousePressEvent (QPointF 3 (- 2)) 3
        (Scene_new \<lparr>drone_radius = 1 / 2, move_force = 5, rotate_torque = 1\<rparr> None)) =
     Some [b2Vec2 0 0, b2Vec2 0 0, b2Vec2 3 (- 2), b2Vec2 3 (- 2)] \<and>
   map_option (\<lambda>s. map (map fd_shape \<circ> m_fixtureList) (drop 2 (m_bodyList (scene_world s))))
     (mousePressEvent (QPointF 3 (- 2)) 3
        (Scene_new \<lparr>drone_radius = 1 / 2, move_force = 5, rotate_torque = 1\<rparr> None)) =
     Some [[Some (b2CircleShape (13421773 / 16777216))], [Some (SetAsBox 0.5 2.0)]]"
proof -
  have x: "\<bar>float_round 3\<bar> < 2 ^ 128"
    by (simp add: float_round_3)
  have y: "\<bar>float_round (- 2)\<bar> < 2 ^ 128"
    by (simp add: float_round_minus_2)
  show ?thesis
    using x y mousePressEvent_spawns [OF x y, of 3
        "Scene_new \<lparr>drone_radius = 1 / 2, move_force = 5, rotate_torque = 1\<rparr> None"]
    by (simp add: Let_def float_round_3 float_round_minus_2 Qt_LeftButton_def
        Qt_RightButton_def Scene_new_bodies b2Body_new_def balloon_body_def_def
        box_body_def_def drone_body_def_def b2BodyDef_new_def balloon_fixture_def_def
        box_fixture_def_def)
qed

text \<open>
  The claim as stated places the bodies at the pointer position itself. A left press at
  \<open>x = 1 + 2\<^sup>-\<^sup>2\<^sup>4\<close>, halfway between two single-precision values, spawns the balloon
  at \<open>x = 1\<close>.
\<close>

theorem mousePressEvent_position_counterexample:
  "map_option (\<lambda>s. m_position (last (m_bodyList (scene_world s))))
     (mousePressEvent (QPointF (16777217 / 16777216) 0) 1
        (Scene_new \<lparr>drone_radius = 1 / 2, move_force = 5, rotate_torque = 1\<rparr> None)) =
     Some (b2Vec2 1 0) \<and>
   b2Vec2 1 0 \<noteq> b2Vec2 (16777217 / 16777216) 0"
  by (simp add: mousePressEvent_def float_of_double_def float_round_tie Let_def
      Qt_LeftButton_def Qt_RightButton_def addBalloon_def world_defs b2Body_new_def
      balloon_body_def_def)

text \<open>
  C6. \<^verbatim>\<open>SceneUi::step\<close> issues one call for every held key and no other: a force of
  magnitude \<open>move_force\<close> along the negative or positive x or y axis for left, right, up
  and down, a torque of \<open>rotate_torque\<close> for Q and of its negative for W. With several keys
  held every call is issued, and on the drone of a well-formed scene the effects add up:
  the accumulated force grows by the sum of the issued forces rotated into the world
  frame, the accumulated torque by the sum of the issued torques.
\<close>

theorem step_issues_calls:
  "Scene_inv s \<Longrightarrow>
   step held s = issue_all (step_calls held (scene_config s)) s \<and>
   m_force (body_at (scene_world (step held s)) (scene_drone s)) =
     b2Vec2_add (m_force (body_at (scene_world s) (scene_drone s)))
       (GetWorldVector (body_at (scene_world s) (scene_drone s))
          (total_force (step_calls held (scene_config s)))) \<and>
   m_torque (body_at (scene_world (step held s)) (scene_drone s)) =
     m_torque (body_at (scene_world s) (scene_drone s)) +
       total_torque (step_calls held (scene_config s))"
  using issue_all_body [of s "step_calls held (scene_config s)"]
  by (simp add: step_issues)

theorem step_issues_calls_witness:
  "Scene_inv (Scene_new \<lparr>drone_radius = 1 / 2, move_force = 5, rotate_torque = 1\<rparr> None) \<and>
   step {Key_Left, Key_Up, Key_Q}
       (Scene_new \<lparr>drone_radius = 1 / 2, move_force = 5, rotate_torque = 1\<rparr> None) =
     issue_all [Call_moveDrone (b2Vec2 (- 5) 0), Call_moveDrone (b2Vec2 0 5),
                Call_rotateDrone 1]
       (Scene_new \<lparr>drone_radius = 1 / 2, move_force = 5, rotate_torque = 1\<rparr> None) \<and>
   m_force (body_at (scene_world (step {Key_Left, Key_Up, Key_Q}
       (Scene_new \<lparr>drone_radius = 1 / 2, move_force = 5, rotate_torque = 1\<rparr> None)))
       (scene_drone
          (Scene_new \<lparr>drone_radius = 1 / 2, move_force = 5, rotate_torque = 1\<rparr> None))) =
     b2Vec2 (- 5) 5 \<and>
   m_torque (body_at (scene_world (step {Key_Left, Key_Up, Key_Q}
       (Scene_new \<lparr>drone_radius = 1 / 2, move_force = 5, rotate_torque = 1\<rparr> None)))
       (scene_drone
          (Scene_new \<lparr>drone_radius = 1 / 2, move_force = 5, rotate_torque = 1\<rparr> None))) =
     1"
proof -
  let ?s = "Scene_new \<lparr>drone_radius = 1 / 2, move_force = 5, rotate_torque = 1\<rparr> None"
  let ?held = "{Key_Left, Key_Up, Key_Q}"
  let ?b = "body_at (scene_world ?s) (scene_drone ?s)"
  have inv: "Scene_inv ?s"
    by (rule Scene_new_inv)
  have calls: "step_calls ?held (scene_config ?s) =
      [Call_moveDrone (b2Vec2 (- 5) 0), Call_moveDrone (b2Vec2 0 5), Call_rotateDrone 1]"
    by (simp add: step_calls_def Scene_new_config)
  have body: "m_force ?b = b2Vec2 0 0" "m_torque ?b = 0" "m_angle ?b = 0"
    by (simp_all add: Scene_new_drone Scene_new_bodies body_at_def b2Body_new_def
        drone_body_def_def b2BodyDef_new_def)
  note t = step_issues_calls [OF inv, of ?held]
  have a: "step ?held ?s =
      issue_all [Call_moveDrone (b2Vec2 (- 5) 0), Call_moveDrone (b2Vec2 0 5),
                 Call_rotateDrone 1] ?s"
    using t [THEN conjunct1] by (simp only: calls)
  have b: "m_force (body_at (scene_world (step ?held ?s)) (scene_drone ?s)) = b2Vec2 (- 5) 5"
    using t [THEN conjunct2, THEN conjunct1]
    by (simp add: calls body GetWorldVector_def b2Vec2_add_def)
  have c: "m_torque (body_at (scene_world (step ?held ?s)) (scene_drone ?s)) = 1"
    using t [THEN conjunct2, THEN conjunct2]
    by (simp add: calls body)
  from inv a b c show ?thesis
    by blast
qed

text \<open>
  C7. Construction builds exactly two bodies and two lights: the static wall body with
  the four edges of the square from \<open>(-10, -10)\<close> to \<open>(10, 10)\<close>, and the dynamic drone
  body with one circle of the configured drone radius and linear and angular damping 10;
  both lights are attached to the wall body; camera, touch sensor, accelerometer and
  compass are attached to the drone body.
\<close>

theorem construction_builds:
  "let s = Scene_new dflt config;
       w = scene_world s;
       walls = body_at w 0;
       drone = body_at w (scene_drone s)
   in length (m_bodyList w) = 2 \<and> scene_drone s = 1 \<and>
      m_type walls = b2_staticBody \<and>
      map fd_shape (m_fixtureList walls) =
        [Some (b2EdgeShape (b2Vec2 (- 10) (- 10)) (b2Vec2 10 (- 10))),
         Some (b2EdgeShape (b2Vec2 (- 10) (- 10)) (b2Vec2 (- 10) 10)),
         Some (b2EdgeShape (b2Vec2 10 (- 10)) (b2Vec2 10 10)),
         Some (b2EdgeShape (b2Vec2 (- 10) 10) (b2Vec2 10 10))] \<and>
      m_type drone = b2_dynamicBody \<and>
      map fd_shape (m_fixtureList drone) =
        [Some (b2CircleShape
           (drone_radius (case config of Some c \<Rightarrow> c | None \<Rightarrow> dflt)))] \<and>
      m_linearDamping drone = 10 \<and> m_angularDamping drone = 10 \<and>
      map ld_body (m_lightList w) = [0, 0] \<and>
      cam_body (scene_camera s) = scene_drone s \<and>
      ts_body (scene_touch_sensor s) = scene_drone s \<and>
      acc_body (scene_accelerometer s) = scene_drone s \<and>
      cmp_body (scene_compass s) = scene_drone s"
  by (simp add: Let_def Scene_new_drone Scene_new_bodies Scene_new_lights Scene_new_config
      body_at_def b2Body_new_def b2BodyDef_new_def drone_body_def_def drone_fixture_def_def
      Scene_new_sensors wall_fixture_def_def light1_def_def light2_def_def copyFrom_def
      split: option.split)

text \<open>
  C8. A supplied configuration is copied into the scene's configuration; without one
  (null) the configuration keeps its defaults, and construction yields a well-formed
  scene whose drone has the default radius.
\<close>

theorem construction_config:
  "scene_config (Scene_new dflt (Some c)) = c \<and>
   scene_config (Scene_new dflt None) = dflt \<and>
   Scene_inv (Scene_new dflt None) \<and>
   map fd_shape (m_fixtureList
       (body_at (scene_world (Scene_new dflt None)) (scene_drone (Scene_new dflt None)))) =
     [Some (b2CircleShape (drone_radius dflt))]"
  by (simp add: Scene_new_config Scene_new_inv Scene_new_drone Scene_new_bodies body_at_def
      copyFrom_def drone_fixture_def_def)

text \<open>
  C9. No operation other than \<^verbatim>\<open>postStep\<close> writes the derived variables: a history of
  \<^verbatim>\<open>moveDrone\<close>, \<^verbatim>\<open>rotateDrone\<close>, \<^verbatim>\<open>addBalloon\<close>, \<^verbatim>\<open>addBox\<close>, \<^verbatim>\<open>render\<close>,
  \<^verbatim>\<open>step\<close> and \<^verbatim>\<open>mousePressEvent\<close> calls leaves them as they were, so after a
  \<^verbatim>\<open>postStep\<close> and until the next one they are the drone body's position, velocity and
  angle as of that \<^verbatim>\<open>postStep\<close>. The history has an outcome exactly when its pointer
  events are in range.
\<close>

theorem variables_written_by_postStep_only:
  "\<forall>op \<in> set ops. \<not> is_postStep op \<Longrightarrow>
   map_option scene_variables (run_ops ops s) =
     (if list_all op_in_range ops then Some (scene_variables s) else None) \<and>
   map_option scene_variables (run_ops ops (postStep dt s)) =
     (if list_all op_in_range ops then Some (drone_state s) else None)"
proof -
  assume no_postStep: "\<forall>op \<in> set ops. \<not> is_postStep op"
  have written: "scene_variables (postStep dt s) = drone_state s"
    by (simp add: postStep_def updateVariables_def drone_state_def Let_def GetPosition_def
        GetLinearVelocity_def GetAngle_def)
  have "map_option scene_variables (run_ops ops s0) =
      (if list_all op_in_range ops then Some (scene_variables s0) else None)" for s0
  proof (cases "run_ops ops s0")
    case None
    then have "\<not> list_all op_in_range ops"
      using run_ops_None [of ops s0] by simp
    with None show ?thesis
      by simp
  next
    case (Some s1)
    then have "list_all op_in_range ops"
      using run_ops_None [of ops s0] by simp
    with Some run_ops_variables [OF no_postStep Some] show ?thesis
      by simp
  qed
  from this [of s] this [of "postStep dt s"] written show ?thesis
    by simp
qed

theorem variables_written_by_postStep_only_witness:
  "list_all (\<lambda>op. \<not> is_postStep op)
     [Op_moveDrone (b2Vec2 5 0), Op_rotateDrone 1, Op_addBalloon 3 (- 2) (3 / 4),
      Op_addBox 0 5 1 1, Op_render, Op_step {Key_Left, Key_W},
      Op_mousePressEvent (QPointF 3 (- 2)) 3] \<and>
   map_option scene_variables
     (run_ops [Op_moveDrone (b2Vec2 5 0), Op_rotateDrone 1, Op_addBalloon 3 (- 2) (3 / 4),
      Op_addBox 0 5 1 1, Op_render, Op_step {Key_Left, Key_W},
      Op_mousePressEvent (QPointF 3 (- 2)) 3]
       (postStep (1 / 64)
          (Scene_new \<lparr>drone_radius = 1 / 2, move_force = 5, rotate_torque = 1\<rparr> None))) =
     Some \<lparr>drone_x = 0, drone_y = 0, drone_vx = 0, drone_vy = 0, drone_dir = 0\<rparr>"
proof -
  let ?ops = "[Op_moveDrone (b2Vec2 5 0), Op_rotateDrone 1, Op_addBalloon 3 (- 2) (3 / 4),
      Op_addBox 0 5 1 1, Op_render, Op_step {Key_Left, Key_W},
      Op_mousePressEvent (QPointF 3 (- 2)) 3]"
  let ?s = "Scene_new \<lparr>drone_radius = 1 / 2, move_force = 5, rotate_torque = 1\<rparr> None"
  have h: "\<forall>op \<in> set ?ops. \<not> is_postStep op"
    by simp
  have l: "list_all (\<lambda>op. \<not> is_postStep op) ?ops"
    by simp
  have r: "list_all op_in_range ?ops"
    by (simp add: event_in_range_def float_round_3 float_round_minus_2)
  have d: "drone_state ?s =
      \<lparr>drone_x = 0, drone_y = 0, drone_vx = 0, drone_vy = 0, drone_dir = 0\<rparr>"
    by (simp add: drone_state_def Scene_new_drone Scene_new_bodies body_at_def
        b2Body_new_def drone_body_def_def b2BodyDef_new_def)
  from variables_written_by_postStep_only [OF h, of ?s "1 / 64"] have
    "map_option scene_variables (run_ops ?ops (postStep (1 / 64) ?s)) =
       (if list_all op_in_range ?ops then Some (drone_state ?s) else None)"
    by (rule conjunct2)
  then have "map_option scene_variables (run_ops ?ops (postStep (1 / 64) ?s)) =
      Some \<lparr>drone_x = 0, drone_y = 0, drone_vx = 0, drone_vy = 0, drone_dir = 0\<rparr>"
    by (simp only: r d if_True)
  with l show ?thesis
    by blast
qed

text \<open>
  C10. The world is built with gravity \<open>(0, 0)\<close> and the scene with the extents
  \<open>(-10, -10, 20, 20)\<close>, and no operation of the scene or of its user interface changes
  either: after every history of calls the weight of a body of any mass is zero. The
  history has an outcome exactly when its pointer events are in range.
\<close>

theorem no_gravity:
  "map_option (\<lambda>s. m_gravity (scene_world s)) (run_ops ops (Scene_new dflt config)) =
     (if list_all op_in_range ops then Some (b2Vec2 0 0) else None) \<and>
   map_option scene_extents (run_ops ops (Scene_new dflt config)) =
     (if list_all op_in_range ops then Some (Rect (- 10) (- 10) 20 20) else None) \<and>
   map_option (\<lambda>s. gravity_force (scene_world s) mass)
       (run_ops ops (Scene_new dflt config)) =
     (if list_all op_in_range ops then Some (b2Vec2 0 0) else None)"
proof (cases "run_ops ops (Scene_new dflt config)")
  case None
  then have "\<not> list_all op_in_range ops"
    using run_ops_None [of ops "Scene_new dflt config"] by simp
  with None show ?thesis
    by simp
next
  case (Some s1)
  then have "list_all op_in_range ops"
    using run_ops_None [of ops "Scene_new dflt config"] by simp
  with Some run_ops_gravity [OF Some] run_ops_extents [OF Some] show ?thesis
    by (simp add: Scene_new_gravity Scene_new_extents gravity_force_def b2Vec2_scale_def)
qed

end
